theory Spec2Isabelle
  imports Main "HOL-Library.Sublist"
begin

section \<open>Python values and exceptions\<close>

text \<open>
  The values \<^verbatim>\<open>json.loads\<close> produces: \<^verbatim>\<open>None\<close>, booleans, integers, strings, lists
  and dictionaries with string keys (an association list; a key is looked up with
  \<open>map_of\<close>). The value a Python function returns when it falls off its end,
  \<^verbatim>\<open>None\<close>, is \<open>JNull\<close>.
\<close>

datatype json =
    JNull
  | JBool bool
  | JInt int
  | JStr string
  | JList "json list"
  | JDict "(string \<times> json) list"

text \<open>
  The exceptions the two source files raise or let through. \<open>Failure\<close>, \<open>Error\<close> and
  \<open>MerlinException\<close> are the three subclasses of \<^verbatim>\<open>MerlinExc\<close> of process.py, each
  carrying \<^verbatim>\<open>self.value\<close>; the others are Python's built-in classes, with their message.
\<close>

datatype exc =
    Failure json
  | Error json
  | MerlinException json
  | ValueError string
  | KeyError string
  | TypeError string
  | AttributeError string
  | OSError string
  | FileNotFoundError string

subsection \<open>\<^verbatim>\<open>str\<close> on integers\<close>

definition digit :: "nat \<Rightarrow> char" where
  "digit d = ''0123456789'' ! d"

fun str_nat :: "nat \<Rightarrow> string" where
  "str_nat n = (if n < 10 then [digit n] else str_nat (n div 10) @ [digit (n mod 10)])"

declare str_nat.simps [simp del]

definition str_int :: "int \<Rightarrow> string" where
  "str_int i = (if i < 0 then CHR ''-'' # str_nat (nat (- i)) else str_nat (nat i))"

section \<open>helpers.py: \<^verbatim>\<open>fmtpos\<close>\<close>

text \<open>
  The argument of \<^verbatim>\<open>fmtpos\<close>, by the tests the function makes on it: \<^verbatim>\<open>None\<close>, a
  \<^verbatim>\<open>dict\<close>, a \<^verbatim>\<open>tuple\<close>, a \<^verbatim>\<open>list\<close>, or a value of another type (an integer or a
  string here). Lines and columns are integers.
\<close>

datatype pos_arg =
    PosNone
  | PosDict "(string \<times> int) list"
  | PosTuple "int list"
  | PosList "int list"
  | PosInt int
  | PosStr string

text \<open>\<^verbatim>\<open>"{0}:{1}".format(line, col)\<close>\<close>

definition format_pos :: "int \<Rightarrow> int \<Rightarrow> string" where
  "format_pos line col = str_int line @ '':'' @ str_int col"

text \<open>
  \<^verbatim>\<open>(line, col) = arg\<close>: unpacking a sequence that does not hold exactly two values raises
  \<^verbatim>\<open>ValueError\<close>.
\<close>

fun unpack_pos :: "int list \<Rightarrow> exc + string" where
  "unpack_pos [line, col] = Inr (format_pos line col)"
| "unpack_pos [] = Inl (ValueError ''not enough values to unpack'')"
| "unpack_pos [x] = Inl (ValueError ''not enough values to unpack'')"
| "unpack_pos xs = Inl (ValueError ''too many values to unpack'')"

fun fmtpos :: "pos_arg \<Rightarrow> exc + string" where
  "fmtpos PosNone = Inr ''end''"
| "fmtpos (PosDict arg) =
     (case map_of arg ''line'' of
        None \<Rightarrow> Inl (KeyError ''line'')
      | Some line \<Rightarrow>
          (case map_of arg ''col'' of
             None \<Rightarrow> Inl (KeyError ''col'')
           | Some col \<Rightarrow> Inr (format_pos line col)))"
| "fmtpos (PosTuple arg) = unpack_pos arg"
| "fmtpos (PosList arg) = unpack_pos arg"
| "fmtpos arg = Inl (ValueError ''fmtpos takes None, (line,col) or { 'line' : _, 'col' : _ }'')"

section \<open>The editor and the operating system\<close>

text \<open>
  A settings store of the editor (\<^verbatim>\<open>sublime.load_settings(...)\<close>, \<^verbatim>\<open>view.settings()\<close>),
  with the keys the source reads and writes. \<^verbatim>\<open>get\<close> on a key that is not set returns
  \<^verbatim>\<open>None\<close>.
\<close>

record settings =
  ocamlmerlin_path :: "string option"
  ocamlmerlin_flags :: "string list option"
  ocamlmerlin_complete_with_doc :: "bool option"
  ocamlmerlin_dot_merlins :: "string list option"
  ocamlmerlin_extensions :: "string list option"
  ocamlmerlin_packages :: "string list option"
  ocamlmerlin_buildpath :: "string list option"
  ocamlmerlin_sourcepath :: "string list option"

text \<open>
  What lies outside the two source files, as the calls the source makes of it:
  \<^item> \<open>merlin_settings\<close>: the content of \<^verbatim>\<open>Merlin.sublime-settings\<close>;
  \<^item> \<open>opam_bin\<close>: the output of \<^verbatim>\<open>opam config var bin\<close>, decoded and right-stripped;
  \<^item> \<open>is_executable_file\<close>: \<^verbatim>\<open>os.path.isfile(p) and os.access(p, os.X_OK)\<close>;
  \<^item> \<open>popen\<close>: \<^verbatim>\<open>subprocess.Popen(command, ...)\<close>, the exception it raises if any (both
    branches on \<^verbatim>\<open>sys.platform\<close> spawn the same command);
  \<^item> \<open>communicate\<close>: \<^verbatim>\<open>process.communicate(input=input)\<close>, the pair of standard output
    and standard error, or the exception raised;
  \<^item> \<open>json_loads\<close>: \<^verbatim>\<open>json.loads\<close>, the decoded value or the exception raised.
\<close>

record world =
  merlin_settings :: settings
  opam_bin :: string
  is_executable_file :: "string \<Rightarrow> bool"
  popen :: "string list \<Rightarrow> exc option"
  communicate :: "string list \<Rightarrow> string option \<Rightarrow> exc + string \<times> string"
  json_loads :: "string \<Rightarrow> exc + json"

text \<open>What \<^verbatim>\<open>print\<close> wrote, one entry per call.\<close>

datatype printed =
    Print_command "string list"
  | Print_text string
  | Print_notification json

section \<open>process.py: \<^verbatim>\<open>MerlinProcess\<close>\<close>

text \<open>
  The handle \<^verbatim>\<open>sublime.load_settings("Merlin.sublime-settings")\<close> returns: a live
  reference, read through \<open>merlin_settings\<close> of the world at each \<^verbatim>\<open>get\<close>.
\<close>

datatype settings_ref = Merlin_sublime_settings

text \<open>
  The tracking key of \<^verbatim>\<open>track_verbosity\<close>: \<^verbatim>\<open>None\<close>, a boolean, a string, an integer or a
  list of strings (what \<^verbatim>\<open>args\<close> is).
\<close>

datatype vkey =
    KeyNone
  | KeyBool bool
  | KeyStr string
  | KeyInt int
  | KeyArgs "string list"

text \<open>Python's truth value of a key (\<^verbatim>\<open>if key:\<close>).\<close>

fun truthy :: "vkey \<Rightarrow> bool" where
  "truthy KeyNone = False"
| "truthy (KeyBool b) = b"
| "truthy (KeyStr s) = (s \<noteq> [])"
| "truthy (KeyInt i) = (i \<noteq> 0)"
| "truthy (KeyArgs xs) = (xs \<noteq> [])"

type_synonym history_entry = "string list \<times> string option \<times> string option"

text \<open>
  The fields of a \<^verbatim>\<open>MerlinProcess\<close>: \<^verbatim>\<open>_settings\<close>, \<^verbatim>\<open>_binary_path\<close>, \<^verbatim>\<open>_last_commands\<close> and
  \<^verbatim>\<open>_verbosity_counter\<close>, and the console. The counter is \<^verbatim>\<open>(None, None)\<close> after
  \<^verbatim>\<open>clear\<close>, here \<open>None\<close>, and a pair of a key and a count once \<^verbatim>\<open>track_verbosity\<close>
  has assigned it.
\<close>

record merlin_process =
  m_settings :: "settings_ref option"
  m_binary_path :: "string option"
  m_last_commands :: "history_entry list"
  m_verbosity_counter :: "(vkey \<times> nat) option"
  m_printed :: "printed list"

definition print :: "printed \<Rightarrow> merlin_process \<Rightarrow> merlin_process" where
  "print x p = p\<lparr>m_printed := m_printed p @ [x]\<rparr>"

definition clear :: "merlin_process \<Rightarrow> merlin_process" where
  "clear p = p\<lparr>m_settings := None, m_binary_path := None, m_last_commands := [],
     m_verbosity_counter := None\<rparr>"

text \<open>\<^verbatim>\<open>MerlinProcess()\<close>: a new object, cleared, with nothing printed.\<close>

definition init :: merlin_process where
  "init = \<lparr>m_settings = None, m_binary_path = None, m_last_commands = [],
     m_verbosity_counter = None, m_printed = []\<rparr>"

definition settings_of :: "world \<Rightarrow> merlin_process \<Rightarrow> settings \<times> merlin_process" where
  "settings_of w p =
     (case m_settings p of
        None \<Rightarrow> (merlin_settings w, p\<lparr>m_settings := Some Merlin_sublime_settings\<rparr>)
      | Some Merlin_sublime_settings \<Rightarrow> (merlin_settings w, p))"

text \<open>
  \<^verbatim>\<open>binary_path\<close>. The extension of \<^verbatim>\<open>os.environ['PATH']\<close> changes what the operating
  system finds later, which is \<open>popen\<close> of the world.
\<close>

definition binary_path :: "world \<Rightarrow> merlin_process \<Rightarrow> string \<times> merlin_process" where
  "binary_path w p =
     (case m_binary_path p of
        Some b \<Rightarrow> (b, p)
      | None \<Rightarrow>
          (let (s, p1) = settings_of w p;
               b = (case ocamlmerlin_path s of
                      Some merlin_path \<Rightarrow>
                        if merlin_path \<noteq> [] then merlin_path
                        else if is_executable_file w (opam_bin w @ ''/ocamlmerlin'')
                          then opam_bin w @ ''/ocamlmerlin'' else ''ocamlmerlin''
                    | None \<Rightarrow>
                        if is_executable_file w (opam_bin w @ ''/ocamlmerlin'')
                          then opam_bin w @ ''/ocamlmerlin'' else ''ocamlmerlin'')
           in (b, p1\<lparr>m_binary_path := Some b\<rparr>)))"

definition store_last_command ::
  "string list \<Rightarrow> string option \<Rightarrow> string option \<Rightarrow> merlin_process \<Rightarrow> merlin_process" where
  "store_last_command command response errors p =
     (let cmds = m_last_commands p
      in if cmds \<noteq> [] \<and> hd cmds = (command, None, None)
         then p\<lparr>m_last_commands := cmds[0 := (command, response, errors)]\<rparr>
         else (let cmds1 = (command, response, errors) # cmds
               in p\<lparr>m_last_commands := (if length cmds1 > 5 then butlast cmds1 else cmds1)\<rparr>))"

text \<open>\<^verbatim>\<open>if key is True: key = args\<close>\<close>

definition resolve_key :: "vkey \<Rightarrow> string list \<Rightarrow> vkey" where
  "resolve_key key args = (if key = KeyBool True then KeyArgs args else key)"

definition track_verbosity ::
  "vkey \<Rightarrow> string list \<Rightarrow> merlin_process \<Rightarrow> string list \<times> merlin_process" where
  "track_verbosity key args p =
     (if truthy key then
        (let key1 = resolve_key key args;
             count = (case m_verbosity_counter p of
                        None \<Rightarrow> 0
                      | Some (k, n) \<Rightarrow> if k = key1 then n + 1 else 0)
         in ([''-verbosity'', str_nat count], p\<lparr>m_verbosity_counter := Some (key1, count)\<rparr>))
      else ([], p))"

text \<open>
  \<^verbatim>\<open>exec\<close>. The handler of \<^verbatim>\<open>OSError\<close> and \<^verbatim>\<open>FileNotFoundError\<close> prints and raises the
  exception again; any other exception passes it by.
\<close>

fun is_OSError :: "exc \<Rightarrow> bool" where
  "is_OSError (OSError m) = True"
| "is_OSError (FileNotFoundError m) = True"
| "is_OSError e = False"

definition failed_starting :: "exc \<Rightarrow> merlin_process \<Rightarrow> merlin_process" where
  "failed_starting e p =
     (if is_OSError e
      then print (Print_text
        ''Failed starting ocamlmerlin. Please ensure that ocamlmerlinbinary is executable.'') p
      else p)"

definition exec ::
  "world \<Rightarrow> string list \<Rightarrow> string option \<Rightarrow> string option \<Rightarrow> merlin_process
     \<Rightarrow> (exc + string) \<times> merlin_process" where
  "exec w arguments binary_path_arg input p =
     (let (b, p1) = (case binary_path_arg of None \<Rightarrow> binary_path w p | Some b \<Rightarrow> (b, p));
          command = b # arguments;
          p2 = store_last_command command None None p1
      in case popen w command of
           Some e \<Rightarrow> (Inl e, failed_starting e p2)
         | None \<Rightarrow>
             (let p3 = print (Print_command command) p2
              in case communicate w command input of
                   Inl e \<Rightarrow> (Inl e, failed_starting e p3)
                 | Inr (response, errors) \<Rightarrow>
                     (Inr response,
                      store_last_command command (Some response) (Some errors) p3)))"

definition restart :: "world \<Rightarrow> merlin_process \<Rightarrow> (exc + unit) \<times> merlin_process" where
  "restart w p =
     (case exec w [''server'', ''stop-server''] None (Some []) p of
        (Inl e, p1) \<Rightarrow> (Inl e, p1)
      | (Inr r, p1) \<Rightarrow> (Inr (), clear p1))"

subsection \<open>\<^verbatim>\<open>MerlinProcess.command\<close>\<close>

text \<open>The keyword arguments of \<^verbatim>\<open>command\<close>; \<open>no_kwargs\<close> holds their defaults.\<close>

record kwargs =
  kw_binary_path :: "string option"
  kw_filename :: "string option"
  kw_extensions :: "string list option"
  kw_packages :: "string list option"
  kw_dot_merlins :: "string list option"
  kw_input :: "string option"
  kw_other_flags :: "string list option"
  kw_debug :: bool
  kw_build_path :: "string list option"
  kw_source_path :: "string list option"
  kw_track_verbosity :: vkey

definition no_kwargs :: kwargs where
  "no_kwargs = \<lparr>kw_binary_path = None, kw_filename = None, kw_extensions = None,
     kw_packages = None, kw_dot_merlins = None, kw_input = None, kw_other_flags = None,
     kw_debug = False, kw_build_path = None, kw_source_path = None,
     kw_track_verbosity = KeyNone\<rparr>"

text \<open>\<^verbatim>\<open>xs or []\<close>\<close>

fun or_empty :: "'a list option \<Rightarrow> 'a list" where
  "or_empty None = []"
| "or_empty (Some xs) = xs"

text \<open>\<^verbatim>\<open>for x in xs: cmdline.extend([flag, x])\<close>\<close>

fun extend_each :: "string \<Rightarrow> string list \<Rightarrow> string list \<Rightarrow> string list" where
  "extend_each flag [] cmdline = cmdline"
| "extend_each flag (x # xs) cmdline = extend_each flag xs (cmdline @ [flag, x])"

text \<open>Lines 150 to 181 of \<^verbatim>\<open>command\<close>: the argument list, and the process after them.\<close>

definition command_cmdline ::
  "world \<Rightarrow> string list \<Rightarrow> kwargs \<Rightarrow> merlin_process \<Rightarrow> string list \<times> merlin_process" where
  "command_cmdline w args kw p =
     (let cmdline = [''server''];
          cmdline = cmdline @ args;
          cmdline = (case kw_filename kw of
                       None \<Rightarrow> cmdline
                     | Some filename \<Rightarrow>
                         if filename \<noteq> [] then cmdline @ [''-filename'', filename]
                         else cmdline);
          (verbosity, p1) = track_verbosity (kw_track_verbosity kw) args p;
          cmdline = cmdline @ verbosity;
          cmdline = extend_each ''-extension'' (or_empty (kw_extensions kw)) cmdline;
          cmdline = extend_each ''-package'' (or_empty (kw_packages kw)) cmdline;
          cmdline = extend_each ''-dot-merlin'' (or_empty (kw_dot_merlins kw)) cmdline;
          cmdline = extend_each ''-build-path'' (or_empty (kw_build_path kw)) cmdline;
          cmdline = extend_each ''-source-path'' (or_empty (kw_source_path kw)) cmdline;
          cmdline = (if kw_debug kw then cmdline @ [''-log-file'', ''-''] else cmdline);
          (s, p2) = settings_of w p1;
          flags = or_empty (ocamlmerlin_flags s);
          cmdline = cmdline @ flags;
          cmdline = (case kw_other_flags kw of
                       None \<Rightarrow> cmdline
                     | Some other_flags \<Rightarrow>
                         if other_flags \<noteq> [] then cmdline @ other_flags else cmdline)
      in (cmdline, p2))"

text \<open>
  \<^verbatim>\<open>result[key]\<close> on a decoded value: a dictionary gives the value or \<^verbatim>\<open>KeyError\<close>; no
  other value takes a string as an index.
\<close>

fun subscript :: "json \<Rightarrow> string \<Rightarrow> exc + json" where
  "subscript (JDict d) key =
     (case map_of d key of None \<Rightarrow> Inl (KeyError key) | Some v \<Rightarrow> Inr v)"
| "subscript (JList xs) key = Inl (TypeError ''list indices must be integers'')"
| "subscript (JStr s) key = Inl (TypeError ''string indices must be integers'')"
| "subscript v key = Inl (TypeError ''object is not subscriptable'')"

text \<open>
  What a \<^verbatim>\<open>for\<close> loop runs over: the elements of a list, the characters of a string, the
  keys of a dictionary; no other value is iterable.
\<close>

fun iterate :: "json \<Rightarrow> exc + json list" where
  "iterate (JList xs) = Inr xs"
| "iterate (JStr s) = Inr (map (\<lambda>c. JStr [c]) s)"
| "iterate (JDict d) = Inr (map (\<lambda>kv. JStr (fst kv)) d)"
| "iterate v = Inl (TypeError ''object is not iterable'')"

text \<open>Lines 185 to 198 of \<^verbatim>\<open>command\<close>, on the text \<^verbatim>\<open>exec\<close> returned.\<close>

definition command_decode ::
  "world \<Rightarrow> string \<Rightarrow> merlin_process \<Rightarrow> (exc + json) \<times> merlin_process" where
  "command_decode w result p =
     (case json_loads w result of
        Inl e \<Rightarrow> (Inl e, p)
      | Inr result \<Rightarrow>
          (case subscript result ''class'' of
             Inl e \<Rightarrow> (Inl e, p)
           | Inr class_ \<Rightarrow>
               (case subscript result ''value'' of
                  Inl e \<Rightarrow> (Inl e, p)
                | Inr content \<Rightarrow>
                    (case subscript result ''notifications'' of
                       Inl e \<Rightarrow> (Inl e, p)
                     | Inr notifications \<Rightarrow>
                         (case iterate notifications of
                            Inl e \<Rightarrow> (Inl e, p)
                          | Inr msgs \<Rightarrow>
                              (let p1 = fold (\<lambda>msg. print (Print_notification msg)) msgs p
                               in if class_ = JStr ''return'' then (Inr content, p1)
                                  else if class_ = JStr ''failure'' then (Inl (Failure content), p1)
                                  else if class_ = JStr ''error'' then (Inl (Error content), p1)
                                  else if class_ = JStr ''exception''
                                    then (Inl (MerlinException content), p1)
                                  else (Inr JNull, p1)))))))"

definition command ::
  "world \<Rightarrow> string list \<Rightarrow> kwargs \<Rightarrow> merlin_process \<Rightarrow> (exc + json) \<times> merlin_process" where
  "command w args kw p =
     (let (cmdline, p1) = command_cmdline w args kw p
      in case exec w cmdline (kw_binary_path kw) (kw_input kw) p1 of
           (Inl e, p2) \<Rightarrow> (Inl e, p2)
         | (Inr result, p2) \<Rightarrow> command_decode w result (print (Print_text result) p2))"

section \<open>process.py: \<^verbatim>\<open>MerlinView\<close>\<close>

text \<open>
  The editor's view, as the source reads it: its settings store, \<^verbatim>\<open>file_name()\<close> and the
  text of the buffer, \<^verbatim>\<open>substr(Region(0, size()))\<close>.
\<close>

record view =
  view_settings :: settings
  file_name :: "string option"
  buffer_text :: string

definition view_command ::
  "world \<Rightarrow> string list \<Rightarrow> vkey \<Rightarrow> view \<Rightarrow> merlin_process
     \<Rightarrow> (exc + json) \<times> merlin_process" where
  "view_command w args track v p =
     (let settings = view_settings v
      in command w args
           \<lparr>kw_binary_path = ocamlmerlin_path settings,
            kw_filename = file_name v,
            kw_extensions = ocamlmerlin_extensions settings,
            kw_packages = ocamlmerlin_packages settings,
            kw_dot_merlins = ocamlmerlin_dot_merlins settings,
            kw_input = Some (buffer_text v),
            kw_other_flags = ocamlmerlin_flags settings,
            kw_debug = False,
            kw_build_path = ocamlmerlin_buildpath settings,
            kw_source_path = ocamlmerlin_sourcepath settings,
            kw_track_verbosity = track\<rparr> p)"

text \<open>The list \<^verbatim>\<open>cmd\<close> that \<^verbatim>\<open>complete_cursor\<close> builds; \<^verbatim>\<open>with_doc and "y" or "n"\<close>.\<close>

definition complete_cursor_cmd :: "bool option \<Rightarrow> string \<Rightarrow> string \<Rightarrow> string list" where
  "complete_cursor_cmd with_doc pos base =
     (let cmd = [''complete-prefix''];
          cmd = cmd @ [''-position'', pos, ''-prefix'', base];
          cmd = cmd @ [''-doc'', (if with_doc = Some True then ''y'' else ''n'')]
      in cmd)"

definition complete_cursor ::
  "world \<Rightarrow> string \<Rightarrow> int \<Rightarrow> int \<Rightarrow> view \<Rightarrow> merlin_process
     \<Rightarrow> (exc + json) \<times> merlin_process" where
  "complete_cursor w base line col v p =
     (let (s, p1) = settings_of w p;
          with_doc = ocamlmerlin_complete_with_doc s
      in case fmtpos (PosTuple [line, col]) of
           Inl e \<Rightarrow> (Inl e, p1)
         | Inr pos \<Rightarrow> view_command w (complete_cursor_cmd with_doc pos base) (KeyBool True) v p1)"

definition type_enclosing ::
  "world \<Rightarrow> int \<Rightarrow> int \<Rightarrow> view \<Rightarrow> merlin_process \<Rightarrow> (exc + json) \<times> merlin_process" where
  "type_enclosing w line col v p =
     (case fmtpos (PosTuple [line, col]) of
        Inl e \<Rightarrow> (Inl e, p)
      | Inr pos \<Rightarrow> view_command w [''type-enclosing'', ''-position'', pos] (KeyBool True) v p)"

text \<open>
  The operations that write the view's settings. They take neither the world nor the
  \<^verbatim>\<open>MerlinProcess\<close>: the source calls nothing of either in them.
\<close>

definition set_packages :: "string list \<Rightarrow> view \<Rightarrow> (exc + unit) \<times> view" where
  "set_packages packages v =
     (Inr (), v\<lparr>view_settings := (view_settings v)\<lparr>ocamlmerlin_packages := Some packages\<rparr>\<rparr>)"

definition list_build_path :: "view \<Rightarrow> string list" where
  "list_build_path v = or_empty (ocamlmerlin_buildpath (view_settings v))"

text \<open>
  \<^verbatim>\<open>add_build_path\<close> ends with \<^verbatim>\<open>self.view.settings.set(...)\<close>: \<^verbatim>\<open>settings\<close> is not called
  there, and a method object has no attribute \<^verbatim>\<open>set\<close>. The list \<^verbatim>\<open>paths\<close> is the value
  \<^verbatim>\<open>get\<close> returned, or a new list, and not the store.
\<close>

definition add_build_path :: "string \<Rightarrow> view \<Rightarrow> (exc + unit) \<times> view" where
  "add_build_path path v =
     (let paths = list_build_path v;
          paths = paths @ [path]
      in (Inl (AttributeError ''method object has no attribute set''), v))"

definition list_source_path :: "view \<Rightarrow> string list" where
  "list_source_path v = or_empty (ocamlmerlin_sourcepath (view_settings v))"

definition add_source_path :: "string \<Rightarrow> view \<Rightarrow> (exc + unit) \<times> view" where
  "add_source_path path v =
     (let paths = list_source_path v;
          paths = paths @ [path]
      in (Inl (AttributeError ''method object has no attribute set''), v))"

text \<open>
  \<^verbatim>\<open>extension_enable\<close> and \<^verbatim>\<open>extension_disable\<close>: \<^verbatim>\<open>ext in merlin_exts\<close> raises
  \<^verbatim>\<open>TypeError\<close> when the key is not set and \<^verbatim>\<open>merlin_exts\<close> is \<^verbatim>\<open>None\<close>.
\<close>

definition extension_enable :: "string list \<Rightarrow> view \<Rightarrow> (exc + unit) \<times> view" where
  "extension_enable exts v =
     (case ocamlmerlin_extensions (view_settings v) of
        None \<Rightarrow>
          if exts = [] then (Inr (), v)
          else (Inl (TypeError ''argument of type NoneType is not iterable''), v)
      | Some merlin_exts \<Rightarrow>
          (let merlin_exts =
                 fold (\<lambda>ext m. if ext \<notin> set m then m @ [ext] else m) exts merlin_exts
           in (Inr (),
               v\<lparr>view_settings :=
                   (view_settings v)\<lparr>ocamlmerlin_extensions := Some merlin_exts\<rparr>\<rparr>)))"

definition extension_disable :: "string list \<Rightarrow> view \<Rightarrow> (exc + unit) \<times> view" where
  "extension_disable exts v =
     (case ocamlmerlin_extensions (view_settings v) of
        None \<Rightarrow>
          if exts = [] then (Inr (), v)
          else (Inl (TypeError ''argument of type NoneType is not iterable''), v)
      | Some merlin_exts \<Rightarrow>
          (let merlin_exts =
                 fold (\<lambda>ext m. if ext \<in> set m then remove1 ext m else m) exts merlin_exts
           in (Inr (),
               v\<lparr>view_settings :=
                   (view_settings v)\<lparr>ocamlmerlin_extensions := Some merlin_exts\<rparr>\<rparr>)))"

section \<open>Notions of the statements\<close>

text \<open>A sequence of calls of \<^verbatim>\<open>store_last_command\<close>, in order.\<close>

definition record_all :: "history_entry list \<Rightarrow> merlin_process \<Rightarrow> merlin_process" where
  "record_all xs p =
     fold (\<lambda>(command, response, errors). store_last_command command response errors) xs p"

text \<open>
  The first half of \<^verbatim>\<open>command\<close>, up to the return of \<^verbatim>\<open>exec\<close>: what the tool replied, and
  the process then. \<open>command_line\<close> is the list \<^verbatim>\<open>exec\<close> hands to \<^verbatim>\<open>Popen\<close> in that call.
\<close>

definition tool_run ::
  "world \<Rightarrow> string list \<Rightarrow> kwargs \<Rightarrow> merlin_process \<Rightarrow> (exc + string) \<times> merlin_process" where
  "tool_run w args kw p =
     (let (cmdline, p1) = command_cmdline w args kw p
      in exec w cmdline (kw_binary_path kw) (kw_input kw) p1)"

definition command_line :: "world \<Rightarrow> string list \<Rightarrow> kwargs \<Rightarrow> merlin_process \<Rightarrow> string list" where
  "command_line w args kw p =
     (let (cmdline, p1) = command_cmdline w args kw p;
          b = (case kw_binary_path kw of None \<Rightarrow> fst (binary_path w p1) | Some b \<Rightarrow> b)
      in b # cmdline)"

text \<open>One flag before each value: \<^verbatim>\<open>-package a -package b\<close>.\<close>

definition flag_group :: "string \<Rightarrow> string list \<Rightarrow> string list" where
  "flag_group flag xs = concat (map (\<lambda>x. [flag, x]) xs)"

text \<open>The groups of the argument list before and after the verbosity group.\<close>

definition groups_before :: "string list \<Rightarrow> kwargs \<Rightarrow> string list" where
  "groups_before args kw =
     [''server''] @ args
     @ (case kw_filename kw of
          None \<Rightarrow> []
        | Some filename \<Rightarrow> if filename = [] then [] else [''-filename'', filename])"

definition groups_after :: "world \<Rightarrow> kwargs \<Rightarrow> string list" where
  "groups_after w kw =
     flag_group ''-extension'' (or_empty (kw_extensions kw))
     @ flag_group ''-package'' (or_empty (kw_packages kw))
     @ flag_group ''-dot-merlin'' (or_empty (kw_dot_merlins kw))
     @ flag_group ''-build-path'' (or_empty (kw_build_path kw))
     @ flag_group ''-source-path'' (or_empty (kw_source_path kw))
     @ (if kw_debug kw then [''-log-file'', ''-''] else [])
     @ or_empty (ocamlmerlin_flags (merlin_settings w))
     @ or_empty (kw_other_flags kw)"

subsection \<open>Concrete worlds\<close>

definition no_settings :: settings where
  "no_settings = \<lparr>ocamlmerlin_path = None, ocamlmerlin_flags = None,
     ocamlmerlin_complete_with_doc = None, ocamlmerlin_dot_merlins = None,
     ocamlmerlin_extensions = None, ocamlmerlin_packages = None,
     ocamlmerlin_buildpath = None, ocamlmerlin_sourcepath = None\<rparr>"

text \<open>
  A decoder given by the finite table of the texts it accepts; it rejects any other text
  with the \<^verbatim>\<open>ValueError\<close> of \<^verbatim>\<open>json.loads\<close>.
\<close>

definition decoder_of :: "(string \<times> json) list \<Rightarrow> string \<Rightarrow> exc + json" where
  "decoder_of table s =
     (case map_of table s of
        None \<Rightarrow> Inl (ValueError ''No JSON object could be decoded'')
      | Some v \<Rightarrow> Inr v)"

text \<open>
  A world with no settings, in which spawning raises \<open>spawn_error\<close> if it is given, and the
  tool otherwise writes \<open>out\<close> on its standard output and nothing on its standard error.
\<close>

definition tool_world :: "exc option \<Rightarrow> string \<Rightarrow> (string \<times> json) list \<Rightarrow> world" where
  "tool_world spawn_error out table =
     \<lparr>merlin_settings = no_settings,
      opam_bin = ''/home/user/.opam/default/bin'',
      is_executable_file = (\<lambda>path. False),
      popen = (\<lambda>command. spawn_error),
      communicate = (\<lambda>command input. Inr (out, [])),
      json_loads = decoder_of table\<rparr>"

text \<open>A history of five finished commands, the most recent first.\<close>

definition five_commands :: "history_entry list" where
  "five_commands =
     [([''ocamlmerlin'', ''server'', ''e''], Some ''5'', Some []),
      ([''ocamlmerlin'', ''server'', ''d''], Some ''4'', Some []),
      ([''ocamlmerlin'', ''server'', ''c''], Some ''3'', Some []),
      ([''ocamlmerlin'', ''server'', ''b''], Some ''2'', Some []),
      ([''ocamlmerlin'', ''server'', ''a''], Some ''1'', Some [])]"

text \<open>A world without the tool: spawning raises \<^verbatim>\<open>FileNotFoundError\<close>.\<close>

definition absent_world :: world where
  "absent_world = tool_world (Some (FileNotFoundError ''No such file or directory'')) [] []"

text \<open>
  Replies of the tool and what \<^verbatim>\<open>json.loads\<close> makes of them, and the world in which the
  tool spawns and writes a given text.
\<close>

definition return_text :: string where
  \<open>return_text = ''{"class": "return", "value": ["List"], "notifications": ["hint"]}''\<close>

definition failure_text :: string where
  \<open>failure_text = ''{"class": "failure", "value": "Not_found", "notifications": []}''\<close>

definition error_text :: string where
  \<open>error_text = ''{"class": "error", "value": {"message": "usage"}, "notifications": []}''\<close>

definition exception_text :: string where
  \<open>exception_text = ''{"class": "exception", "value": null, "notifications": []}''\<close>

definition warning_text :: string where
  \<open>warning_text = ''{"class": "warning", "value": 1, "notifications": ["hint"]}''\<close>

definition incomplete_text :: string where
  \<open>incomplete_text = ''{"class": "return"}''\<close>

definition replies :: "(string \<times> json) list" where
  "replies =
     [(return_text,
        JDict [(''class'', JStr ''return''), (''value'', JList [JStr ''List'']),
               (''notifications'', JList [JStr ''hint''])]),
      (failure_text,
        JDict [(''class'', JStr ''failure''), (''value'', JStr ''Not_found''),
               (''notifications'', JList [])]),
      (error_text,
        JDict [(''class'', JStr ''error''), (''value'', JDict [(''message'', JStr ''usage'')]),
               (''notifications'', JList [])]),
      (exception_text,
        JDict [(''class'', JStr ''exception''), (''value'', JNull),
               (''notifications'', JList [])]),
      (warning_text,
        JDict [(''class'', JStr ''warning''), (''value'', JInt 1),
               (''notifications'', JList [JStr ''hint''])]),
      (incomplete_text, JDict [(''class'', JStr ''return'')])]"

definition replying :: "string \<Rightarrow> world" where
  "replying out = tool_world None out replies"

text \<open>
  A world whose \<^verbatim>\<open>Merlin.sublime-settings\<close> holds flags, a call with every keyword argument
  given, and a view with the package \<^verbatim>\<open>core\<close> and no extension.
\<close>

definition flagged_world :: world where
  "flagged_world =
     (replying return_text)\<lparr>merlin_settings :=
        no_settings\<lparr>ocamlmerlin_flags := Some [''-w'', ''+a'']\<rparr>\<rparr>"

definition full_kwargs :: kwargs where
  "full_kwargs =
     \<lparr>kw_binary_path = Some ''ocamlmerlin'', kw_filename = Some ''a.ml'',
      kw_extensions = Some [''lwt''], kw_packages = Some [''core'', ''str''],
      kw_dot_merlins = Some [''.merlin''], kw_input = Some ''let x = 1'',
      kw_other_flags = Some [''-unsafe''], kw_debug = True,
      kw_build_path = Some [''_build''], kw_source_path = Some [''src''],
      kw_track_verbosity = KeyBool True\<rparr>"

definition core_view :: view where
  "core_view =
     \<lparr>view_settings = no_settings\<lparr>ocamlmerlin_packages := Some [''core''],
        ocamlmerlin_extensions := Some []\<rparr>,
      file_name = Some ''a.ml'', buffer_text = ''let l = Li''\<rparr>"

section \<open>Properties\<close>

subsection \<open>Auxiliary facts\<close>

lemma str_nat_0: "str_nat 0 = ''0''"
  by (simp add: str_nat.simps digit_def)

lemma str_nat_1: "str_nat (Suc 0) = ''1''"
  by (simp add: str_nat.simps digit_def)

lemma unpack_pos_other:
  "length xs \<noteq> 2 \<Longrightarrow> \<exists>m. unpack_pos xs = Inl (ValueError m)"
  by (cases xs rule: unpack_pos.cases) simp_all

lemma store_last_command_length:
  "length (m_last_commands p) \<le> 5
   \<Longrightarrow> length (m_last_commands (store_last_command c r e p)) \<le> 5"
  by (simp add: store_last_command_def Let_def)

lemma record_all_length:
  "length (m_last_commands p) \<le> 5 \<Longrightarrow> length (m_last_commands (record_all xs p)) \<le> 5"
proof (induction xs arbitrary: p)
  case Nil
  then show ?case by (simp add: record_all_def)
next
  case (Cons x xs)
  obtain c r e where x: "x = (c, r, e)" by (cases x)
  have "length (m_last_commands (store_last_command c r e p)) \<le> 5"
    using Cons.prems by (rule store_last_command_length)
  then have "length (m_last_commands (record_all xs (store_last_command c r e p))) \<le> 5"
    by (rule Cons.IH)
  then show ?case by (simp add: record_all_def x)
qed

lemma store_last_command_pending:
  "m_last_commands p = (c, None, None) # es
   \<Longrightarrow> m_last_commands (store_last_command c r e p) = (c, r, e) # es"
  by (simp add: store_last_command_def)

lemma store_last_command_new:
  "m_last_commands p = [] \<or> hd (m_last_commands p) \<noteq> (c, None, None)
   \<Longrightarrow> m_last_commands (store_last_command c r e p) =
     (if length (m_last_commands p) < 5 then (c, r, e) # m_last_commands p
      else (c, r, e) # butlast (m_last_commands p))"
  by (auto simp: store_last_command_def Let_def)

lemma track_verbosity_same:
  "truthy key \<Longrightarrow> m_verbosity_counter p = Some (resolve_key key args, n)
   \<Longrightarrow> track_verbosity key args p =
     ([''-verbosity'', str_nat (n + 1)],
      p\<lparr>m_verbosity_counter := Some (resolve_key key args, n + 1)\<rparr>)"
  by (simp add: track_verbosity_def)

lemma track_verbosity_other:
  assumes "truthy key" and "\<forall>n. m_verbosity_counter p \<noteq> Some (resolve_key key args, n)"
  shows "track_verbosity key args p =
    ([''-verbosity'', ''0''], p\<lparr>m_verbosity_counter := Some (resolve_key key args, 0)\<rparr>)"
proof -
  have "(case m_verbosity_counter p of None \<Rightarrow> 0
         | Some (k, n) \<Rightarrow> if k = resolve_key key args then n + 1 else 0) = (0::nat)"
    using assms(2) by (auto split: option.splits)
  then show ?thesis
    using assms(1) by (simp add: track_verbosity_def str_nat_0)
qed

lemma track_verbosity_falsy: "\<not> truthy key \<Longrightarrow> track_verbosity key args p = ([], p)"
  by (simp add: track_verbosity_def)

lemma print_fields [simp]:
  "m_last_commands (print x p) = m_last_commands p"
  "m_binary_path (print x p) = m_binary_path p"
  "m_verbosity_counter (print x p) = m_verbosity_counter p"
  "m_settings (print x p) = m_settings p"
  by (simp_all add: print_def)

lemma failed_starting_fields [simp]:
  "m_last_commands (failed_starting e p) = m_last_commands p"
  by (simp add: failed_starting_def)

lemma settings_of_fields [simp]:
  "fst (settings_of w p) = merlin_settings w"
  "m_last_commands (snd (settings_of w p)) = m_last_commands p"
  "m_binary_path (snd (settings_of w p)) = m_binary_path p"
  "m_verbosity_counter (snd (settings_of w p)) = m_verbosity_counter p"
  "m_printed (snd (settings_of w p)) = m_printed p"
  by (simp_all add: settings_of_def split: option.splits settings_ref.splits)

lemma track_verbosity_fields [simp]:
  "m_last_commands (snd (track_verbosity key args p)) = m_last_commands p"
  "m_binary_path (snd (track_verbosity key args p)) = m_binary_path p"
  "m_printed (snd (track_verbosity key args p)) = m_printed p"
  by (simp_all add: track_verbosity_def Let_def)

lemma command_cmdline_fields [simp]:
  "m_last_commands (snd (command_cmdline w args kw p)) = m_last_commands p"
  "m_binary_path (snd (command_cmdline w args kw p)) = m_binary_path p"
  "m_printed (snd (command_cmdline w args kw p)) = m_printed p"
  by (simp_all add: command_cmdline_def Let_def case_prod_beta)

lemma binary_path_fields [simp]:
  "m_last_commands (snd (binary_path w p)) = m_last_commands p"
  "m_printed (snd (binary_path w p)) = m_printed p"
  by (simp_all add: binary_path_def Let_def case_prod_beta split: option.splits)

lemma store_last_command_cong:
  "m_last_commands p1 = m_last_commands p
   \<Longrightarrow> m_last_commands (store_last_command c r e p1) = m_last_commands (store_last_command c r e p)"
  by (simp add: store_last_command_def Let_def)

lemma store_last_command_front:
  "\<exists>es. m_last_commands (store_last_command c r e p) = (c, r, e) # es"
  by (cases "m_last_commands p") (auto simp: store_last_command_def Let_def)

lemma store_last_command_set:
  "set (m_last_commands (store_last_command c r e p)) \<subseteq> insert (c, r, e) (set (m_last_commands p))"
  by (cases "m_last_commands p") (auto simp: store_last_command_def Let_def dest: in_set_butlastD)

subsection \<open>Cursor positions\<close>

text \<open>
  A dictionary that lacks \<^verbatim>\<open>col\<close> is not one of the accepted shapes, and \<^verbatim>\<open>fmtpos\<close> fails
  on it with \<^verbatim>\<open>KeyError\<close>, not with the \<^verbatim>\<open>ValueError\<close> it raises itself.
\<close>

theorem fmtpos_missing_key_counterexample:
  "fmtpos (PosDict [(''line'', 12)]) = Inl (KeyError ''col'')
   \<and> \<not> (\<exists>m. fmtpos (PosDict [(''line'', 12)]) = Inl (ValueError m))"
  by simp

text \<open>
  Claim C9, amended. \<^verbatim>\<open>fmtpos\<close> is a function of its argument alone. \<^verbatim>\<open>None\<close> gives
  \<^verbatim>\<open>"end"\<close>; a tuple or list \<^verbatim>\<open>(L, C)\<close> and a dictionary holding \<^verbatim>\<open>line\<close> \<open>L\<close> and \<^verbatim>\<open>col\<close> \<open>C\<close>
  give \<^verbatim>\<open>"L:C"\<close>. A dictionary that lacks \<^verbatim>\<open>line\<close>, or holds \<^verbatim>\<open>line\<close> and lacks \<^verbatim>\<open>col\<close>, fails
  with \<^verbatim>\<open>KeyError\<close> on that key. A tuple or list of another length, and an argument of
  another type, fail with \<^verbatim>\<open>ValueError\<close>.
\<close>

theorem fmtpos_shapes:
  "fmtpos PosNone = Inr ''end''
   \<and> fmtpos (PosTuple [L, C]) = Inr (str_int L @ '':'' @ str_int C)
   \<and> fmtpos (PosList [L, C]) = Inr (str_int L @ '':'' @ str_int C)
   \<and> (map_of d ''line'' = Some L \<and> map_of d ''col'' = Some C
        \<longrightarrow> fmtpos (PosDict d) = Inr (str_int L @ '':'' @ str_int C))
   \<and> (map_of d ''line'' = None \<longrightarrow> fmtpos (PosDict d) = Inl (KeyError ''line''))
   \<and> (map_of d ''line'' \<noteq> None \<and> map_of d ''col'' = None
        \<longrightarrow> fmtpos (PosDict d) = Inl (KeyError ''col''))
   \<and> (length xs \<noteq> 2
        \<longrightarrow> (\<exists>m. fmtpos (PosTuple xs) = Inl (ValueError m))
          \<and> (\<exists>m. fmtpos (PosList xs) = Inl (ValueError m)))
   \<and> (\<exists>m. fmtpos (PosInt i) = Inl (ValueError m))
   \<and> (\<exists>m. fmtpos (PosStr s) = Inl (ValueError m))"
  using unpack_pos_other [of xs] by (auto simp: format_pos_def)

theorem fmtpos_shapes_witness:
  "fmtpos (PosDict [(''line'', 12), (''col'', 4)]) = Inr ''12:4''
   \<and> fmtpos (PosTuple [12, 4]) = Inr ''12:4''
   \<and> fmtpos (PosList [12, 4]) = Inr ''12:4''
   \<and> fmtpos PosNone = Inr ''end''
   \<and> (\<exists>m. fmtpos (PosTuple [12, 4, 7]) = Inl (ValueError m))
   \<and> (\<exists>m. fmtpos (PosStr ''12:4'') = Inl (ValueError m))"
proof -
  have s: "str_int 12 = ''12''" "str_int 4 = ''4''"
    by (simp_all add: str_int_def str_nat.simps digit_def)
  show ?thesis
    using fmtpos_shapes [of 12 4 "[(''line'', 12), (''col'', 4)]" "[12, 4, 7]" 0 "''12:4''"]
    by (simp add: s)
qed

subsection \<open>The command history\<close>

text \<open>
  Claim C6. After any sequence of calls of \<^verbatim>\<open>store_last_command\<close> on a cleared process the
  history holds at most five entries, and a call keeps that bound. On a history of five
  entries, a command that is not the pending front entry goes to the front and the last,
  oldest, entry is dropped; on a shorter history it goes to the front of the entries
  already there, which keep their order. When the front entry is the pending entry of the
  command, \<^verbatim>\<open>(command, None, None)\<close>, that entry is replaced by the result and nothing is
  added.
\<close>

theorem command_history_bounded:
  "length (m_last_commands (record_all xs (clear q))) \<le> 5
   \<and> (length (m_last_commands p) \<le> 5
        \<longrightarrow> length (m_last_commands (store_last_command c r e p)) \<le> 5)
   \<and> (length (m_last_commands p) = 5 \<and> hd (m_last_commands p) \<noteq> (c, None, None)
        \<longrightarrow> m_last_commands (store_last_command c r e p)
            = (c, r, e) # butlast (m_last_commands p))
   \<and> (length (m_last_commands p) < 5
        \<and> (m_last_commands p = [] \<or> hd (m_last_commands p) \<noteq> (c, None, None))
        \<longrightarrow> m_last_commands (store_last_command c r e p) = (c, r, e) # m_last_commands p)
   \<and> (m_last_commands p = (c, None, None) # es
        \<longrightarrow> m_last_commands (store_last_command c r e p) = (c, r, e) # es)"
proof -
  have "length (m_last_commands (clear q)) \<le> 5"
    by (simp add: clear_def)
  then have "length (m_last_commands (record_all xs (clear q))) \<le> 5"
    by (rule record_all_length)
  moreover have "length (m_last_commands p) = 5 \<and> hd (m_last_commands p) \<noteq> (c, None, None)
        \<longrightarrow> m_last_commands (store_last_command c r e p)
            = (c, r, e) # butlast (m_last_commands p)"
    by (simp add: store_last_command_new)
  moreover have "length (m_last_commands p) < 5
        \<and> (m_last_commands p = [] \<or> hd (m_last_commands p) \<noteq> (c, None, None))
        \<longrightarrow> m_last_commands (store_last_command c r e p) = (c, r, e) # m_last_commands p"
    by (simp add: store_last_command_new)
  ultimately show ?thesis
    using store_last_command_length [of p c r e] store_last_command_pending [of p c es r e]
    by blast
qed

theorem command_history_bounded_witness:
  "m_last_commands (store_last_command [''ocamlmerlin'', ''server'', ''f''] None None
      (init\<lparr>m_last_commands := five_commands\<rparr>))
     = [([''ocamlmerlin'', ''server'', ''f''], None, None),
        ([''ocamlmerlin'', ''server'', ''e''], Some ''5'', Some []),
        ([''ocamlmerlin'', ''server'', ''d''], Some ''4'', Some []),
        ([''ocamlmerlin'', ''server'', ''c''], Some ''3'', Some []),
        ([''ocamlmerlin'', ''server'', ''b''], Some ''2'', Some [])]
   \<and> m_last_commands
       (store_last_command [''ocamlmerlin'', ''server'', ''f''] (Some ''6'') (Some [])
         (init\<lparr>m_last_commands :=
            ([''ocamlmerlin'', ''server'', ''f''], None, None) # butlast five_commands\<rparr>))
     = ([''ocamlmerlin'', ''server'', ''f''], Some ''6'', Some []) # butlast five_commands
   \<and> length (m_last_commands (record_all five_commands (clear init))) \<le> 5"
  using
    command_history_bounded [where xs = five_commands and q = init
      and p = "init\<lparr>m_last_commands := five_commands\<rparr>"
      and c = "[''ocamlmerlin'', ''server'', ''f'']" and r = None and e = None]
    command_history_bounded [where xs = "[]" and q = init
      and p = "init\<lparr>m_last_commands :=
        ([''ocamlmerlin'', ''server'', ''f''], None, None) # butlast five_commands\<rparr>"
      and c = "[''ocamlmerlin'', ''server'', ''f'']" and r = "Some ''6''" and e = "Some []"
      and es = "butlast five_commands"]
  by (simp add: five_commands_def)

subsection \<open>The verbosity counter\<close>

text \<open>
  Claim C5. A key that Python takes as true is tracked; the key stored is the key itself,
  or the argument list of the call when the key is \<^verbatim>\<open>True\<close>. While the stored key is the key
  of the call the count is incremented and emitted. When the stored key is another key, or
  none is stored, the call emits the count 0 and stores the new key with it, and the next
  call with the same key emits 1; so on a cleared process two calls with a key emit 0 and
  then 1. A call with no key, or a key Python takes as false, emits no token and leaves
  the counter as it is.
\<close>

theorem verbosity_counter_tracking:
  "(truthy key \<and> m_verbosity_counter p = Some (resolve_key key args, n)
      \<longrightarrow> track_verbosity key args p =
           ([''-verbosity'', str_nat (n + 1)],
            p\<lparr>m_verbosity_counter := Some (resolve_key key args, n + 1)\<rparr>))
   \<and> (truthy key \<and> (\<forall>n. m_verbosity_counter p \<noteq> Some (resolve_key key args, n))
      \<longrightarrow> track_verbosity key args p =
           ([''-verbosity'', ''0''],
            p\<lparr>m_verbosity_counter := Some (resolve_key key args, 0)\<rparr>)
        \<and> fst (track_verbosity key args (snd (track_verbosity key args p)))
           = [''-verbosity'', ''1''])
   \<and> (truthy key
      \<longrightarrow> fst (track_verbosity key args (clear q)) = [''-verbosity'', ''0'']
        \<and> fst (track_verbosity key args (snd (track_verbosity key args (clear q))))
           = [''-verbosity'', ''1''])
   \<and> (\<not> truthy key \<longrightarrow> track_verbosity key args p = ([], p))"
proof -
  have twice: "fst (track_verbosity key args (snd (track_verbosity key args s)))
      = [''-verbosity'', ''1'']"
    if "truthy key" and "\<forall>n. m_verbosity_counter s \<noteq> Some (resolve_key key args, n)" for s
    using that by (simp add: track_verbosity_other track_verbosity_same str_nat_1)
  have fresh: "\<forall>n. m_verbosity_counter (clear q) \<noteq> Some (resolve_key key args, n)"
    by (simp add: clear_def)
  show ?thesis
    using twice [of p] twice [OF _ fresh] track_verbosity_other [OF _ fresh]
    by (simp add: track_verbosity_same track_verbosity_other track_verbosity_falsy)
qed

theorem verbosity_counter_tracking_witness:
  "fst (track_verbosity (KeyStr ''k'') [] init) = [''-verbosity'', ''0'']
   \<and> fst (track_verbosity (KeyStr ''k'') [] (snd (track_verbosity (KeyStr ''k'') [] init)))
      = [''-verbosity'', ''1'']
   \<and> track_verbosity (KeyStr ''j'') [] (init\<lparr>m_verbosity_counter := Some (KeyStr ''k'', 1)\<rparr>)
      = ([''-verbosity'', ''0''], init\<lparr>m_verbosity_counter := Some (KeyStr ''j'', 0)\<rparr>)
   \<and> track_verbosity (KeyBool True) [''type-enclosing'', ''-position'', ''1:0'']
        (init\<lparr>m_verbosity_counter :=
           Some (KeyArgs [''type-enclosing'', ''-position'', ''1:0''], 1)\<rparr>)
      = ([''-verbosity'', ''2''],
         init\<lparr>m_verbosity_counter :=
           Some (KeyArgs [''type-enclosing'', ''-position'', ''1:0''], 2)\<rparr>)
   \<and> track_verbosity KeyNone [] (init\<lparr>m_verbosity_counter := Some (KeyStr ''k'', 1)\<rparr>)
      = ([], init\<lparr>m_verbosity_counter := Some (KeyStr ''k'', 1)\<rparr>)"
proof -
  have i: "clear init = init"
    by (simp add: clear_def init_def)
  have s: "str_nat (Suc (Suc 0)) = ''2''"
    by (simp add: str_nat.simps digit_def)
  show ?thesis
    using
      verbosity_counter_tracking [where key = "KeyStr ''k''" and args = "[]" and p = init
        and q = init]
      verbosity_counter_tracking [where key = "KeyStr ''j''" and args = "[]"
        and p = "init\<lparr>m_verbosity_counter := Some (KeyStr ''k'', 1)\<rparr>"]
      verbosity_counter_tracking [where key = "KeyBool True"
        and args = "[''type-enclosing'', ''-position'', ''1:0'']" and n = 1
        and p = "init\<lparr>m_verbosity_counter :=
          Some (KeyArgs [''type-enclosing'', ''-position'', ''1:0''], 1)\<rparr>"]
      verbosity_counter_tracking [where key = KeyNone and args = "[]"
        and p = "init\<lparr>m_verbosity_counter := Some (KeyStr ''k'', 1)\<rparr>"]
    by (simp add: i s resolve_key_def)
qed

subsection \<open>Failure to spawn\<close>

lemma command_unfold:
  "command w args kw p =
     (case tool_run w args kw p of
        (Inl e, p2) \<Rightarrow> (Inl e, p2)
      | (Inr result, p2) \<Rightarrow> command_decode w result (print (Print_text result) p2))"
  by (simp add: command_def tool_run_def case_prod_beta)

lemma exec_spawn_failure:
  assumes "(case bp of None \<Rightarrow> binary_path w p | Some b \<Rightarrow> (b, p)) = (b, p1)"
    and "popen w (b # arguments) = Some e"
  shows "exec w arguments bp input p =
    (Inl e, failed_starting e (store_last_command (b # arguments) None None p1))"
  using assms by (simp add: exec_def)

lemma tool_run_spawn_failure:
  assumes "popen w (command_line w args kw p) = Some e"
  shows "fst (tool_run w args kw p) = Inl e"
    and "m_last_commands (snd (tool_run w args kw p)) =
      m_last_commands (store_last_command (command_line w args kw p) None None p)"
proof -
  obtain cmdline p1 where c: "command_cmdline w args kw p = (cmdline, p1)"
    by (cases "command_cmdline w args kw p")
  obtain b p2 where b: "(case kw_binary_path kw of None \<Rightarrow> binary_path w p1
      | Some b \<Rightarrow> (b, p1)) = (b, p2)"
    by (cases "case kw_binary_path kw of None \<Rightarrow> binary_path w p1 | Some b \<Rightarrow> (b, p1)")
  have l: "command_line w args kw p = b # cmdline"
    using b by (simp add: command_line_def c split: option.splits)
  have h1: "m_last_commands p1 = m_last_commands p"
    using command_cmdline_fields(1) [of w args kw p] by (simp add: c)
  have h2: "m_last_commands p2 = m_last_commands p1"
  proof (cases "kw_binary_path kw")
    case None
    then have "p2 = snd (binary_path w p1)"
      using b by simp
    then show ?thesis by simp
  next
    case (Some a)
    then show ?thesis using b by simp
  qed
  have x: "tool_run w args kw p =
      (Inl e, failed_starting e (store_last_command (b # cmdline) None None p2))"
    using exec_spawn_failure [OF b, of cmdline e "kw_input kw"] assms
    by (simp add: tool_run_def c l)
  show "fst (tool_run w args kw p) = Inl e"
    by (simp add: x)
  have "m_last_commands p2 = m_last_commands p"
    by (simp add: h1 h2)
  then have "m_last_commands (store_last_command (b # cmdline) None None p2) =
      m_last_commands (store_last_command (b # cmdline) None None p)"
    by (rule store_last_command_cong)
  then show "m_last_commands (snd (tool_run w args kw p)) =
      m_last_commands (store_last_command (command_line w args kw p) None None p)"
    by (simp add: x l)
qed

text \<open>
  On a new process, a command whose spawn fails leaves the history changed: it holds the
  pending entry of the command.
\<close>

theorem spawn_failure_history_counterexample:
  "fst (command absent_world [''errors''] no_kwargs init)
     = Inl (FileNotFoundError ''No such file or directory'')
   \<and> m_last_commands init = []
   \<and> m_last_commands (snd (command absent_world [''errors''] no_kwargs init))
     = [([''ocamlmerlin'', ''server'', ''errors''], None, None)]"
  by (simp add: absent_world_def tool_world_def no_kwargs_def init_def command_def
      command_cmdline_def track_verbosity_def settings_of_def no_settings_def exec_def
      binary_path_def store_last_command_def failed_starting_def print_def Let_def)

text \<open>
  Claim C3, amended. When \<^verbatim>\<open>Popen\<close> raises on the command line of the call, \<^verbatim>\<open>command\<close>
  raises that exception, unchanged. The history is then the one that the call
  \<^verbatim>\<open>store_last_command(command, None, None)\<close> made before the spawn leaves: its front
  entry is the pending entry of the command, with neither response nor errors, and every
  other entry was in the history before the call.
\<close>

theorem spawn_failure_propagates:
  assumes "popen w (command_line w args kw p) = Some e"
  shows "fst (command w args kw p) = Inl e
    \<and> m_last_commands (snd (command w args kw p)) =
        m_last_commands (store_last_command (command_line w args kw p) None None p)
    \<and> hd (m_last_commands (snd (command w args kw p))) = (command_line w args kw p, None, None)
    \<and> set (m_last_commands (snd (command w args kw p)))
        \<subseteq> insert (command_line w args kw p, None, None) (set (m_last_commands p))"
proof -
  obtain r p2 where t: "tool_run w args kw p = (r, p2)"
    by (cases "tool_run w args kw p")
  have r: "r = Inl e"
    using tool_run_spawn_failure(1) [OF assms] t by simp
  have c: "command w args kw p = (Inl e, p2)"
    by (simp add: command_unfold t r)
  have h: "m_last_commands p2 =
      m_last_commands (store_last_command (command_line w args kw p) None None p)"
    using tool_run_spawn_failure(2) [OF assms] t by simp
  obtain es where es: "m_last_commands (store_last_command (command_line w args kw p) None None p)
      = (command_line w args kw p, None, None) # es"
    using store_last_command_front by blast
  show ?thesis
    using store_last_command_set [of "command_line w args kw p" None None p]
    by (simp add: c h es)
qed

theorem spawn_failure_propagates_witness:
  "popen absent_world (command_line absent_world [''errors''] no_kwargs init)
     = Some (FileNotFoundError ''No such file or directory'')
   \<and> fst (command absent_world [''errors''] no_kwargs init)
     = Inl (FileNotFoundError ''No such file or directory'')
   \<and> hd (m_last_commands (snd (command absent_world [''errors''] no_kwargs init)))
     = ([''ocamlmerlin'', ''server'', ''errors''], None, None)"
proof -
  have h: "popen absent_world (command_line absent_world [''errors''] no_kwargs init)
     = Some (FileNotFoundError ''No such file or directory'')"
    by (simp add: absent_world_def tool_world_def)
  have l: "command_line absent_world [''errors''] no_kwargs init
     = [''ocamlmerlin'', ''server'', ''errors'']"
    by (simp add: absent_world_def tool_world_def no_kwargs_def init_def command_line_def
      command_cmdline_def track_verbosity_def settings_of_def no_settings_def
      binary_path_def Let_def)
  have "fst (command absent_world [''errors''] no_kwargs init)
       = Inl (FileNotFoundError ''No such file or directory'')
     \<and> hd (m_last_commands (snd (command absent_world [''errors''] no_kwargs init)))
       = (command_line absent_world [''errors''] no_kwargs init, None, None)"
    using spawn_failure_propagates [OF h] by blast
  then show ?thesis
    using h by (simp add: l)
qed

subsection \<open>The reply of the tool\<close>

lemma fold_print_notifications:
  "fold (\<lambda>msg. print (Print_notification msg)) msgs p =
     p\<lparr>m_printed := m_printed p @ map Print_notification msgs\<rparr>"
  by (induction msgs arbitrary: p) (simp_all add: print_def)

lemma command_decode_envelope:
  assumes "json_loads w raw = Inr (JDict d)"
    and "map_of d ''class'' = Some c"
    and "map_of d ''value'' = Some v"
    and "map_of d ''notifications'' = Some n"
    and "iterate n = Inr msgs"
  shows "command_decode w raw p =
     (if c = JStr ''return'' then Inr v
      else if c = JStr ''failure'' then Inl (Failure v)
      else if c = JStr ''error'' then Inl (Error v)
      else if c = JStr ''exception'' then Inl (MerlinException v)
      else Inr JNull,
      p\<lparr>m_printed := m_printed p @ map Print_notification msgs\<rparr>)"
  using assms by (simp add: command_decode_def fold_print_notifications)

lemma exec_success:
  assumes "(case bp of None \<Rightarrow> binary_path w p | Some b \<Rightarrow> (b, p)) = (b, p1)"
    and "popen w (b # arguments) = None"
    and "communicate w (b # arguments) input = Inr (response, errors)"
  shows "exec w arguments bp input p =
    (Inr response,
     store_last_command (b # arguments) (Some response) (Some errors)
       (print (Print_command (b # arguments))
         (store_last_command (b # arguments) None None p1)))"
  using assms by (simp add: exec_def Let_def)

lemma tool_run_success:
  assumes "popen w (command_line w args kw p) = None"
    and "communicate w (command_line w args kw p) (kw_input kw) = Inr (response, errors)"
  shows "fst (tool_run w args kw p) = Inr response"
proof -
  obtain cmdline p1 where c: "command_cmdline w args kw p = (cmdline, p1)"
    by (cases "command_cmdline w args kw p")
  obtain b p2 where b: "(case kw_binary_path kw of None \<Rightarrow> binary_path w p1
      | Some b \<Rightarrow> (b, p1)) = (b, p2)"
    by (cases "case kw_binary_path kw of None \<Rightarrow> binary_path w p1 | Some b \<Rightarrow> (b, p1)")
  have l: "command_line w args kw p = b # cmdline"
    using b by (simp add: command_line_def c split: option.splits)
  show ?thesis
    using exec_success [OF b, of cmdline "kw_input kw" response errors] assms
    by (simp add: tool_run_def c l)
qed

lemma command_decode_failure:
  assumes "tool_run w args kw p = (Inr raw, p2)" and "json_loads w raw = Inl e"
  shows "command w args kw p = (Inl e, print (Print_text raw) p2)"
  using assms by (simp add: command_unfold command_decode_def)

lemma replying_run:
  "\<exists>p2. tool_run (replying out) args kw p = (Inr out, p2)"
proof -
  have "fst (tool_run (replying out) args kw p) = Inr out"
    by (rule tool_run_success [where errors = "[]"])
       (simp_all add: replying_def tool_world_def)
  then show ?thesis
    by (cases "tool_run (replying out) args kw p") simp
qed

lemma replying_loads:
  "json_loads (replying out) s = decoder_of replies s"
  by (simp add: replying_def tool_world_def)

text \<open>
  Claim C1. When the tool has replied and the reply decodes to an object holding
  \<^verbatim>\<open>class\<close>, \<^verbatim>\<open>value\<close> and an iterable \<^verbatim>\<open>notifications\<close>, \<^verbatim>\<open>command\<close> returns the value for
  the class \<^verbatim>\<open>return\<close>, and raises \<^verbatim>\<open>Failure\<close>, \<^verbatim>\<open>Error\<close> or \<^verbatim>\<open>MerlinException\<close> carrying
  the value for the classes \<^verbatim>\<open>failure\<close>, \<^verbatim>\<open>error\<close> and \<^verbatim>\<open>exception\<close>, whatever the value is.
  The notifications only add printed lines to the process.
\<close>

theorem command_dispatch_on_class:
  assumes "tool_run w args kw p = (Inr raw, p2)"
    and "json_loads w raw = Inr (JDict d)"
    and "map_of d ''class'' = Some (JStr c)"
    and "map_of d ''value'' = Some v"
    and "map_of d ''notifications'' = Some n"
    and "iterate n = Inr msgs"
  shows "(c = ''return'' \<longrightarrow> fst (command w args kw p) = Inr v)
    \<and> (c = ''failure'' \<longrightarrow> fst (command w args kw p) = Inl (Failure v))
    \<and> (c = ''error'' \<longrightarrow> fst (command w args kw p) = Inl (Error v))
    \<and> (c = ''exception'' \<longrightarrow> fst (command w args kw p) = Inl (MerlinException v))
    \<and> snd (command w args kw p) =
        p2\<lparr>m_printed := m_printed p2 @ Print_text raw # map Print_notification msgs\<rparr>"
proof -
  have "command w args kw p = command_decode w raw (print (Print_text raw) p2)"
    by (simp add: command_unfold assms(1))
  then show ?thesis
    using command_decode_envelope [OF assms(2-6), of "print (Print_text raw) p2"]
    by (simp add: print_def)
qed

theorem command_dispatch_on_class_witness:
  "fst (command (replying return_text) [''errors''] no_kwargs init) = Inr (JList [JStr ''List''])
   \<and> fst (command (replying failure_text) [''errors''] no_kwargs init)
      = Inl (Failure (JStr ''Not_found''))
   \<and> fst (command (replying error_text) [''errors''] no_kwargs init)
      = Inl (Error (JDict [(''message'', JStr ''usage'')]))
   \<and> fst (command (replying exception_text) [''errors''] no_kwargs init)
      = Inl (MerlinException JNull)"
proof -
  obtain p1 where r1: "tool_run (replying return_text) [''errors''] no_kwargs init
      = (Inr return_text, p1)"
    using replying_run by blast
  obtain p2 where r2: "tool_run (replying failure_text) [''errors''] no_kwargs init
      = (Inr failure_text, p2)"
    using replying_run by blast
  obtain p3 where r3: "tool_run (replying error_text) [''errors''] no_kwargs init
      = (Inr error_text, p3)"
    using replying_run by blast
  obtain p4 where r4: "tool_run (replying exception_text) [''errors''] no_kwargs init
      = (Inr exception_text, p4)"
    using replying_run by blast
  have l1: "json_loads (replying return_text) return_text =
      Inr (JDict [(''class'', JStr ''return''), (''value'', JList [JStr ''List'']),
               (''notifications'', JList [JStr ''hint''])])"
    by (simp add: replying_loads decoder_of_def replies_def return_text_def)
  have l2: "json_loads (replying failure_text) failure_text =
      Inr (JDict [(''class'', JStr ''failure''), (''value'', JStr ''Not_found''),
               (''notifications'', JList [])])"
    by (simp add: replying_loads decoder_of_def replies_def return_text_def failure_text_def)
  have l3: "json_loads (replying error_text) error_text =
      Inr (JDict [(''class'', JStr ''error''), (''value'', JDict [(''message'', JStr ''usage'')]),
               (''notifications'', JList [])])"
    by (simp add: replying_loads decoder_of_def replies_def return_text_def failure_text_def
        error_text_def)
  have l4: "json_loads (replying exception_text) exception_text =
      Inr (JDict [(''class'', JStr ''exception''), (''value'', JNull),
               (''notifications'', JList [])])"
    by (simp add: replying_loads decoder_of_def replies_def return_text_def failure_text_def
        error_text_def exception_text_def)
  show ?thesis
    using command_dispatch_on_class [OF r1 l1, of "''return''" "JList [JStr ''List'']"
        "JList [JStr ''hint'']" "[JStr ''hint'']"]
      command_dispatch_on_class [OF r2 l2, of "''failure''" "JStr ''Not_found''"
        "JList []" "[]"]
      command_dispatch_on_class [OF r3 l3, of "''error''" "JDict [(''message'', JStr ''usage'')]"
        "JList []" "[]"]
      command_dispatch_on_class [OF r4 l4, of "''exception''" JNull "JList []" "[]"]
    by simp
qed

text \<open>
  Claim C10. With such a reply whose class is none of \<^verbatim>\<open>return\<close>, \<^verbatim>\<open>failure\<close>, \<^verbatim>\<open>error\<close>
  and \<^verbatim>\<open>exception\<close>, \<^verbatim>\<open>command\<close> prints the notifications and returns \<^verbatim>\<open>None\<close>; it
  raises nothing.
\<close>

theorem command_unrecognised_class:
  assumes "tool_run w args kw p = (Inr raw, p2)"
    and "json_loads w raw = Inr (JDict d)"
    and "map_of d ''class'' = Some c"
    and "map_of d ''value'' = Some v"
    and "map_of d ''notifications'' = Some n"
    and "iterate n = Inr msgs"
    and "c \<noteq> JStr ''return''" and "c \<noteq> JStr ''failure''"
    and "c \<noteq> JStr ''error''" and "c \<noteq> JStr ''exception''"
  shows "command w args kw p =
    (Inr JNull, p2\<lparr>m_printed := m_printed p2 @ Print_text raw # map Print_notification msgs\<rparr>)"
proof -
  have "command w args kw p = command_decode w raw (print (Print_text raw) p2)"
    by (simp add: command_unfold assms(1))
  then show ?thesis
    using command_decode_envelope [OF assms(2-6), of "print (Print_text raw) p2"] assms(7-10)
    by (simp add: print_def)
qed

theorem command_unrecognised_class_witness:
  "fst (command (replying warning_text) [''errors''] no_kwargs init) = Inr JNull"
proof -
  obtain p2 where r: "tool_run (replying warning_text) [''errors''] no_kwargs init
      = (Inr warning_text, p2)"
    using replying_run by blast
  have l: "json_loads (replying warning_text) warning_text =
      Inr (JDict [(''class'', JStr ''warning''), (''value'', JInt 1),
               (''notifications'', JList [JStr ''hint''])])"
    by (simp add: replying_loads decoder_of_def replies_def return_text_def failure_text_def
        error_text_def exception_text_def warning_text_def)
  show ?thesis
    using command_unrecognised_class [OF r l, of "JStr ''warning''" "JInt 1"
        "JList [JStr ''hint'']" "[JStr ''hint'']"]
    by simp
qed

text \<open>
  A reply that is not JSON: \<^verbatim>\<open>command\<close> raises the \<^verbatim>\<open>ValueError\<close> of \<^verbatim>\<open>json.loads\<close> itself.
\<close>

theorem command_parse_crash_counterexample:
  "json_loads (replying ''<html>'') ''<html>''
     = Inl (ValueError ''No JSON object could be decoded'')
   \<and> fst (command (replying ''<html>'') [''errors''] no_kwargs init)
     = Inl (ValueError ''No JSON object could be decoded'')"
proof -
  obtain p2 where r: "tool_run (replying ''<html>'') [''errors''] no_kwargs init
      = (Inr ''<html>'', p2)"
    using replying_run by blast
  have l: "json_loads (replying ''<html>'') ''<html>''
     = Inl (ValueError ''No JSON object could be decoded'')"
    by (simp add: replying_loads decoder_of_def replies_def return_text_def failure_text_def
        error_text_def exception_text_def warning_text_def incomplete_text_def)
  show ?thesis
    using command_decode_failure [OF r l] l by simp
qed

text \<open>
  Claim C2, amended. When the tool has replied and \<^verbatim>\<open>json.loads\<close> raises on the reply,
  \<^verbatim>\<open>command\<close> raises that same exception. When the reply decodes to an object that lacks
  \<^verbatim>\<open>class\<close>, \<^verbatim>\<open>value\<close> or \<^verbatim>\<open>notifications\<close>, it raises \<^verbatim>\<open>KeyError\<close> on the first of them
  that is missing; when the reply decodes to a value that is not an object, it raises
  \<^verbatim>\<open>TypeError\<close>.
\<close>

theorem command_undecodable_reply:
  assumes "tool_run w args kw p = (Inr raw, p2)"
  shows "(json_loads w raw = Inl e \<longrightarrow> fst (command w args kw p) = Inl e)
    \<and> (json_loads w raw = Inr (JDict d) \<and> map_of d ''class'' = None
        \<longrightarrow> fst (command w args kw p) = Inl (KeyError ''class''))
    \<and> (json_loads w raw = Inr (JDict d) \<and> map_of d ''class'' \<noteq> None
          \<and> map_of d ''value'' = None
        \<longrightarrow> fst (command w args kw p) = Inl (KeyError ''value''))
    \<and> (json_loads w raw = Inr (JDict d) \<and> map_of d ''class'' \<noteq> None
          \<and> map_of d ''value'' \<noteq> None \<and> map_of d ''notifications'' = None
        \<longrightarrow> fst (command w args kw p) = Inl (KeyError ''notifications''))
    \<and> (json_loads w raw = Inr r \<and> (\<forall>d. r \<noteq> JDict d)
        \<longrightarrow> (\<exists>m. fst (command w args kw p) = Inl (TypeError m)))"
proof -
  have c: "command w args kw p = command_decode w raw (print (Print_text raw) p2)"
    by (simp add: command_unfold assms(1))
  have "\<exists>m. subscript r ''class'' = Inl (TypeError m)" if "\<forall>d. r \<noteq> JDict d"
    using that by (cases r) simp_all
  then have "json_loads w raw = Inr r \<and> (\<forall>d. r \<noteq> JDict d)
        \<longrightarrow> (\<exists>m. fst (command w args kw p) = Inl (TypeError m))"
    by (auto simp: c command_decode_def)
  then show ?thesis
    by (auto simp: c command_decode_def)
qed

theorem command_undecodable_reply_witness:
  "fst (command (replying ''<html>'') [''errors''] no_kwargs init)
     = Inl (ValueError ''No JSON object could be decoded'')
   \<and> fst (command (replying incomplete_text) [''errors''] no_kwargs init)
     = Inl (KeyError ''value'')"
proof -
  obtain p1 where r1: "tool_run (replying ''<html>'') [''errors''] no_kwargs init
      = (Inr ''<html>'', p1)"
    using replying_run by blast
  obtain p2 where r2: "tool_run (replying incomplete_text) [''errors''] no_kwargs init
      = (Inr incomplete_text, p2)"
    using replying_run by blast
  have l1: "json_loads (replying ''<html>'') ''<html>''
     = Inl (ValueError ''No JSON object could be decoded'')"
    by (simp add: replying_loads decoder_of_def replies_def return_text_def failure_text_def
        error_text_def exception_text_def warning_text_def incomplete_text_def)
  have l2: "json_loads (replying incomplete_text) incomplete_text
     = Inr (JDict [(''class'', JStr ''return'')])"
    by (simp add: replying_loads decoder_of_def replies_def return_text_def failure_text_def
        error_text_def exception_text_def warning_text_def incomplete_text_def)
  show ?thesis
    using command_undecodable_reply [OF r1, of "ValueError ''No JSON object could be decoded''"]
      command_undecodable_reply [OF r2, where d = "[(''class'', JStr ''return'')]"]
    by (simp add: l1 l2)
qed

subsection \<open>The argument list\<close>

lemma extend_each_flag_group:
  "extend_each flag xs cmdline = cmdline @ flag_group flag xs"
  by (induction xs arbitrary: cmdline) (simp_all add: flag_group_def)

lemma command_cmdline_eq:
  "fst (command_cmdline w args kw p) =
     groups_before args kw @ fst (track_verbosity (kw_track_verbosity kw) args p)
       @ groups_after w kw"
  by (simp add: command_cmdline_def groups_before_def groups_after_def Let_def
      case_prod_beta extend_each_flag_group split: option.splits)

lemma track_verbosity_tokens:
  "truthy key \<Longrightarrow> \<exists>n. fst (track_verbosity key args p) = [''-verbosity'', str_nat n]"
  by (auto simp: track_verbosity_def Let_def)

text \<open>
  Claim C7. The argument list of \<^verbatim>\<open>command\<close> is \<^verbatim>\<open>server\<close> and the arguments of the call, then
  \<^verbatim>\<open>-filename\<close>, the verbosity tokens, one \<^verbatim>\<open>-extension\<close> for each extension, one \<^verbatim>\<open>-package\<close>
  for each package, one \<^verbatim>\<open>-dot-merlin\<close> for each descriptor, the \<^verbatim>\<open>-build-path\<close> and then the
  \<^verbatim>\<open>-source-path\<close> entries, \<^verbatim>\<open>-log-file -\<close> under debug, the flags of the settings and the
  flags of the call, in this order. Two calls with the same inputs, on any two states of
  the process, build the same list when no key is tracked, and lists that differ in the
  count after \<^verbatim>\<open>-verbosity\<close> alone when one is.
\<close>

theorem command_cmdline_groups:
  "fst (command_cmdline w args kw p) =
     [''server''] @ args
     @ (case kw_filename kw of
          None \<Rightarrow> []
        | Some filename \<Rightarrow> if filename = [] then [] else [''-filename'', filename])
     @ fst (track_verbosity (kw_track_verbosity kw) args p)
     @ flag_group ''-extension'' (or_empty (kw_extensions kw))
     @ flag_group ''-package'' (or_empty (kw_packages kw))
     @ flag_group ''-dot-merlin'' (or_empty (kw_dot_merlins kw))
     @ flag_group ''-build-path'' (or_empty (kw_build_path kw))
     @ flag_group ''-source-path'' (or_empty (kw_source_path kw))
     @ (if kw_debug kw then [''-log-file'', ''-''] else [])
     @ or_empty (ocamlmerlin_flags (merlin_settings w))
     @ or_empty (kw_other_flags kw)
   \<and> (\<not> truthy (kw_track_verbosity kw)
        \<longrightarrow> fst (track_verbosity (kw_track_verbosity kw) args p) = []
          \<and> fst (command_cmdline w args kw p) = fst (command_cmdline w args kw p'))
   \<and> (truthy (kw_track_verbosity kw)
        \<longrightarrow> (\<exists>n n'.
              fst (command_cmdline w args kw p) =
                groups_before args kw @ [''-verbosity'', str_nat n] @ groups_after w kw
              \<and> fst (command_cmdline w args kw p') =
                groups_before args kw @ [''-verbosity'', str_nat n'] @ groups_after w kw))"
proof -
  have a: "fst (command_cmdline w args kw p) =
     [''server''] @ args
     @ (case kw_filename kw of
          None \<Rightarrow> []
        | Some filename \<Rightarrow> if filename = [] then [] else [''-filename'', filename])
     @ fst (track_verbosity (kw_track_verbosity kw) args p)
     @ flag_group ''-extension'' (or_empty (kw_extensions kw))
     @ flag_group ''-package'' (or_empty (kw_packages kw))
     @ flag_group ''-dot-merlin'' (or_empty (kw_dot_merlins kw))
     @ flag_group ''-build-path'' (or_empty (kw_build_path kw))
     @ flag_group ''-source-path'' (or_empty (kw_source_path kw))
     @ (if kw_debug kw then [''-log-file'', ''-''] else [])
     @ or_empty (ocamlmerlin_flags (merlin_settings w))
     @ or_empty (kw_other_flags kw)"
    by (simp add: command_cmdline_eq groups_before_def groups_after_def)
  have b: "fst (track_verbosity (kw_track_verbosity kw) args p) = []
      \<and> fst (command_cmdline w args kw p) = fst (command_cmdline w args kw p')"
    if "\<not> truthy (kw_track_verbosity kw)"
    using that by (simp add: command_cmdline_eq track_verbosity_falsy)
  have c: "\<exists>n n'.
      fst (command_cmdline w args kw p) =
        groups_before args kw @ [''-verbosity'', str_nat n] @ groups_after w kw
      \<and> fst (command_cmdline w args kw p') =
        groups_before args kw @ [''-verbosity'', str_nat n'] @ groups_after w kw"
    if "truthy (kw_track_verbosity kw)"
    using track_verbosity_tokens [OF that, of args p]
      track_verbosity_tokens [OF that, of args p']
    by (auto simp: command_cmdline_eq)
  show ?thesis
    using a b c by blast
qed

theorem command_cmdline_groups_witness:
  "fst (command_cmdline flagged_world [''errors''] full_kwargs init) =
     [''server'', ''errors'', ''-filename'', ''a.ml'', ''-verbosity'', ''0'',
      ''-extension'', ''lwt'', ''-package'', ''core'', ''-package'', ''str'',
      ''-dot-merlin'', ''.merlin'', ''-build-path'', ''_build'', ''-source-path'', ''src'',
      ''-log-file'', ''-'', ''-w'', ''+a'', ''-unsafe'']
   \<and> fst (command_cmdline flagged_world [''errors'']
          (full_kwargs\<lparr>kw_track_verbosity := KeyNone\<rparr>) init)
     = fst (command_cmdline flagged_world [''errors'']
          (full_kwargs\<lparr>kw_track_verbosity := KeyNone\<rparr>)
          (snd (command_cmdline flagged_world [''errors''] full_kwargs init)))"
proof -
  have v: "fst (track_verbosity (KeyBool True) [''errors''] init) = [''-verbosity'', ''0'']"
    by (simp add: track_verbosity_def init_def str_nat_0)
  have a: "fst (command_cmdline flagged_world [''errors''] full_kwargs init) =
     [''server'', ''errors'', ''-filename'', ''a.ml'', ''-verbosity'', ''0'',
      ''-extension'', ''lwt'', ''-package'', ''core'', ''-package'', ''str'',
      ''-dot-merlin'', ''.merlin'', ''-build-path'', ''_build'', ''-source-path'', ''src'',
      ''-log-file'', ''-'', ''-w'', ''+a'', ''-unsafe'']"
    using command_cmdline_groups [where w = flagged_world and args = "[''errors'']"
        and kw = full_kwargs and p = init and p' = init, THEN conjunct1]
    by (simp add: v full_kwargs_def flagged_world_def flag_group_def no_settings_def)
  have k: "\<not> truthy (kw_track_verbosity (full_kwargs\<lparr>kw_track_verbosity := KeyNone\<rparr>))"
    by simp
  show ?thesis
    using command_cmdline_groups [where w = flagged_world and args = "[''errors'']"
        and kw = "full_kwargs\<lparr>kw_track_verbosity := KeyNone\<rparr>" and p = init
        and p' = "snd (command_cmdline flagged_world [''errors''] full_kwargs init)"]
      a k
    by blast
qed

subsection \<open>Completion at the cursor\<close>

lemma command_decode_history [simp]:
  "m_last_commands (snd (command_decode w raw p)) = m_last_commands p"
  by (simp add: command_decode_def fold_print_notifications Let_def
      split: sum.splits)

lemma exec_history_front:
  "\<exists>b r e es. m_last_commands (snd (exec w arguments bp input p)) = (b # arguments, r, e) # es"
proof -
  obtain b p1 where b: "(case bp of None \<Rightarrow> binary_path w p | Some b \<Rightarrow> (b, p)) = (b, p1)"
    by (cases "case bp of None \<Rightarrow> binary_path w p | Some b \<Rightarrow> (b, p)")
  obtain es where es: "m_last_commands (store_last_command (b # arguments) None None p1)
      = (b # arguments, None, None) # es"
    using store_last_command_front by blast
  show ?thesis
  proof (cases "popen w (b # arguments)")
    case (Some e)
    then show ?thesis
      using exec_spawn_failure [OF b Some, of input] es by simp
  next
    case None
    show ?thesis
    proof (cases "communicate w (b # arguments) input")
      case (Inl e)
      then have "exec w arguments bp input p =
          (Inl e, failed_starting e (print (Print_command (b # arguments))
             (store_last_command (b # arguments) None None p1)))"
        using b None by (simp add: exec_def Let_def)
      then show ?thesis
        using es by simp
    next
      case (Inr x)
      obtain response errors where x: "x = (response, errors)"
        by (cases x)
      have "m_last_commands (print (Print_command (b # arguments))
             (store_last_command (b # arguments) None None p1))
          = (b # arguments, None, None) # es"
        using es by simp
      then have "m_last_commands (store_last_command (b # arguments) (Some response) (Some errors)
          (print (Print_command (b # arguments))
             (store_last_command (b # arguments) None None p1)))
          = (b # arguments, Some response, Some errors) # es"
        by (rule store_last_command_pending)
      then show ?thesis
        using exec_success [OF b None, of input response errors] Inr x by simp
    qed
  qed
qed

lemma command_history_front:
  "\<exists>b r e es. m_last_commands (snd (command w args kw p))
     = (b # fst (command_cmdline w args kw p), r, e) # es"
proof -
  obtain cmdline p1 where c: "command_cmdline w args kw p = (cmdline, p1)"
    by (cases "command_cmdline w args kw p")
  obtain b r e es where x: "m_last_commands (snd (exec w cmdline (kw_binary_path kw) (kw_input kw) p1))
      = (b # cmdline, r, e) # es"
    using exec_history_front by blast
  obtain res p2 where y: "exec w cmdline (kw_binary_path kw) (kw_input kw) p1 = (res, p2)"
    by (cases "exec w cmdline (kw_binary_path kw) (kw_input kw) p1")
  have "m_last_commands (snd (command w args kw p)) = m_last_commands p2"
    by (cases res) (simp_all add: command_def c y)
  then show ?thesis
    using x by (simp add: c y)
qed

lemma format_pos_10_3: "format_pos 10 3 = ''10:3''"
  by (simp add: format_pos_def str_int_def str_nat.simps digit_def)

lemma subseq_between:
  "subseq (xs @ ys) (a # xs @ bs @ ys @ cs)"
proof -
  have "subseq ys (bs @ ys @ cs)"
    by (intro list_emb_append2 list_emb_prefix) simp
  then have "subseq (xs @ ys) (xs @ bs @ ys @ cs)"
    by (simp add: list_emb_append_mono)
  then show ?thesis
    by (rule list_emb_Cons)
qed

lemma complete_cursor_core_view: "complete_cursor (replying return_text) ''Li'' 10 3 core_view init =
   command (replying return_text)
     [''complete-prefix'', ''-position'', ''10:3'', ''-prefix'', ''Li'', ''-doc'', ''n'']
     \<lparr>kw_binary_path = None, kw_filename = Some ''a.ml'', kw_extensions = Some [],
      kw_packages = Some [''core''], kw_dot_merlins = None,
      kw_input = Some ''let l = Li'', kw_other_flags = None, kw_debug = False,
      kw_build_path = None, kw_source_path = None, kw_track_verbosity = KeyBool True\<rparr>
     (init\<lparr>m_settings := Some Merlin_sublime_settings\<rparr>)"
  by (simp add: complete_cursor_def format_pos_10_3 view_command_def complete_cursor_cmd_def
        case_prod_beta Let_def core_view_def no_settings_def replying_def
        tool_world_def init_def settings_of_def)

text \<open>
  Claim C8. \<^verbatim>\<open>complete_cursor\<close> with the prefix \<^verbatim>\<open>Li\<close> at line 10, column 3, on a view with
  the packages \<^verbatim>\<open>["core"]\<close>, the completion-with-documentation setting not being true:
  the front entry of the history is the command line of the call, the binary followed by
  an argument list that contains \<^verbatim>\<open>complete-prefix -position 10:3 -prefix Li -doc n
  -package core\<close> in this relative order.
\<close>

theorem complete_cursor_arguments:
  assumes "ocamlmerlin_packages (view_settings v) = Some [''core'']"
    and "ocamlmerlin_complete_with_doc (merlin_settings w) \<noteq> Some True"
  shows "\<exists>b cmdline r e es.
    m_last_commands (snd (complete_cursor w ''Li'' 10 3 v p)) = (b # cmdline, r, e) # es
    \<and> subseq [''complete-prefix'', ''-position'', ''10:3'', ''-prefix'', ''Li'', ''-doc'', ''n'',
         ''-package'', ''core''] cmdline"
proof -
  define kw where "kw =
    \<lparr>kw_binary_path = ocamlmerlin_path (view_settings v),
     kw_filename = file_name v,
     kw_extensions = ocamlmerlin_extensions (view_settings v),
     kw_packages = ocamlmerlin_packages (view_settings v),
     kw_dot_merlins = ocamlmerlin_dot_merlins (view_settings v),
     kw_input = Some (buffer_text v),
     kw_other_flags = ocamlmerlin_flags (view_settings v),
     kw_debug = False,
     kw_build_path = ocamlmerlin_buildpath (view_settings v),
     kw_source_path = ocamlmerlin_sourcepath (view_settings v),
     kw_track_verbosity = KeyBool True\<rparr>"
  define cmd where "cmd =
    [''complete-prefix'', ''-position'', ''10:3'', ''-prefix'', ''Li'', ''-doc'', ''n'']"
  define p1 where "p1 = snd (settings_of w p)"
  have c: "complete_cursor w ''Li'' 10 3 v p = command w cmd kw p1"
    using assms(2)
    by (simp add: complete_cursor_def format_pos_10_3 view_command_def complete_cursor_cmd_def
        kw_def cmd_def p1_def case_prod_beta Let_def)
  obtain b r e es where h: "m_last_commands (snd (command w cmd kw p1))
      = (b # fst (command_cmdline w cmd kw p1), r, e) # es"
    using command_history_front by blast
  define X where "X =
    (case kw_filename kw of None \<Rightarrow> []
     | Some filename \<Rightarrow> if filename = [] then [] else [''-filename'', filename])
    @ fst (track_verbosity (kw_track_verbosity kw) cmd p1)
    @ flag_group ''-extension'' (or_empty (kw_extensions kw))"
  define Y where "Y =
    flag_group ''-dot-merlin'' (or_empty (kw_dot_merlins kw))
    @ flag_group ''-build-path'' (or_empty (kw_build_path kw))
    @ flag_group ''-source-path'' (or_empty (kw_source_path kw))
    @ or_empty (ocamlmerlin_flags (merlin_settings w))
    @ or_empty (kw_other_flags kw)"
  have pk: "kw_packages kw = Some [''core'']" and db: "\<not> kw_debug kw"
    using assms(1) by (simp_all add: kw_def)
  have "fst (command_cmdline w cmd kw p1) =
      ''server'' # cmd @ X @ [''-package'', ''core''] @ Y"
    by (simp add: command_cmdline_eq groups_before_def groups_after_def pk db flag_group_def
        X_def Y_def)
  moreover have "subseq (cmd @ [''-package'', ''core''])
      (''server'' # cmd @ X @ [''-package'', ''core''] @ Y)"
    by (rule subseq_between)
  ultimately have "subseq (cmd @ [''-package'', ''core'']) (fst (command_cmdline w cmd kw p1))"
    by simp
  then show ?thesis
    using h by (simp add: c cmd_def)
qed

theorem complete_cursor_arguments_witness:
  "m_last_commands (snd (complete_cursor (replying return_text) ''Li'' 10 3 core_view init))
     = [([''ocamlmerlin'', ''server'', ''complete-prefix'', ''-position'', ''10:3'', ''-prefix'',
          ''Li'', ''-doc'', ''n'', ''-filename'', ''a.ml'', ''-verbosity'', ''0'',
          ''-package'', ''core''], Some return_text, Some [])]
   \<and> subseq [''complete-prefix'', ''-position'', ''10:3'', ''-prefix'', ''Li'', ''-doc'', ''n'',
         ''-package'', ''core'']
       [''server'', ''complete-prefix'', ''-position'', ''10:3'', ''-prefix'',
          ''Li'', ''-doc'', ''n'', ''-filename'', ''a.ml'', ''-verbosity'', ''0'',
          ''-package'', ''core'']"
proof -
  define cmd where "cmd =
    [''complete-prefix'', ''-position'', ''10:3'', ''-prefix'', ''Li'', ''-doc'', ''n'']"
  define kw where "kw =
     \<lparr>kw_binary_path = None, kw_filename = Some ''a.ml'', kw_extensions = Some [],
      kw_packages = Some [''core''], kw_dot_merlins = None,
      kw_input = Some ''let l = Li'', kw_other_flags = None, kw_debug = False,
      kw_build_path = None, kw_source_path = None, kw_track_verbosity = KeyBool True\<rparr>"
  define p1 where "p1 = init\<lparr>m_settings := Some Merlin_sublime_settings\<rparr>"
  define p2 where "p2 = p1\<lparr>m_verbosity_counter := Some (KeyArgs cmd, 0)\<rparr>"
  define cmdline where "cmdline = ''server'' # cmd @
    [''-filename'', ''a.ml'', ''-verbosity'', ''0'', ''-package'', ''core'']"
  have a: "ocamlmerlin_packages (view_settings core_view) = Some [''core'']"
    by (simp add: core_view_def)
  have b: "ocamlmerlin_complete_with_doc (merlin_settings (replying return_text)) \<noteq> Some True"
    by (simp add: replying_def tool_world_def no_settings_def)
  have s1: "complete_cursor (replying return_text) ''Li'' 10 3 core_view init
      = command (replying return_text) cmd kw p1"
    by (simp add: complete_cursor_core_view cmd_def kw_def p1_def)
  have s2: "command_cmdline (replying return_text) cmd kw p1 = (cmdline, p2)"
    by (simp add: command_cmdline_def kw_def p1_def p2_def cmdline_def track_verbosity_def
        resolve_key_def init_def str_nat_0 settings_of_def replying_def tool_world_def
        no_settings_def)
  have s3: "binary_path (replying return_text) p2
      = (''ocamlmerlin'', p2\<lparr>m_binary_path := Some ''ocamlmerlin''\<rparr>)"
    by (simp add: binary_path_def p2_def p1_def init_def settings_of_def replying_def
        tool_world_def no_settings_def Let_def)
  have s4: "exec (replying return_text) cmdline None (Some ''let l = Li'') p2 =
      (Inr return_text,
       store_last_command (''ocamlmerlin'' # cmdline) (Some return_text) (Some [])
         (print (Print_command (''ocamlmerlin'' # cmdline))
           (store_last_command (''ocamlmerlin'' # cmdline) None None
             (p2\<lparr>m_binary_path := Some ''ocamlmerlin''\<rparr>))))"
  proof (rule exec_success)
    show "(case None of None \<Rightarrow> binary_path (replying return_text) p2 | Some b \<Rightarrow> (b, p2))
        = (''ocamlmerlin'', p2\<lparr>m_binary_path := Some ''ocamlmerlin''\<rparr>)"
      by (simp add: s3)
    show "popen (replying return_text) (''ocamlmerlin'' # cmdline) = None"
      by (simp add: replying_def tool_world_def)
    show "communicate (replying return_text) (''ocamlmerlin'' # cmdline) (Some ''let l = Li'')
        = Inr (return_text, [])"
      by (simp add: replying_def tool_world_def)
  qed
  have s5: "m_last_commands (snd (command (replying return_text) cmd kw p1))
      = [(''ocamlmerlin'' # cmdline, Some return_text, Some [])]"
  proof -
    have kb: "kw_binary_path kw = None" "kw_input kw = Some ''let l = Li''"
      by (simp_all add: kw_def)
    have "m_last_commands (snd (command (replying return_text) cmd kw p1)) =
        m_last_commands
          (store_last_command (''ocamlmerlin'' # cmdline) (Some return_text) (Some [])
            (print (Print_command (''ocamlmerlin'' # cmdline))
              (store_last_command (''ocamlmerlin'' # cmdline) None None
                (p2\<lparr>m_binary_path := Some ''ocamlmerlin''\<rparr>))))"
      by (simp add: command_def s2 kb s4)
    also have "\<dots> = [(''ocamlmerlin'' # cmdline, Some return_text, Some [])]"
      by (simp add: store_last_command_def print_def p2_def p1_def init_def)
    finally show ?thesis .
  qed
  have "m_last_commands (snd (complete_cursor (replying return_text) ''Li'' 10 3 core_view init))
     = [([''ocamlmerlin'', ''server'', ''complete-prefix'', ''-position'', ''10:3'', ''-prefix'',
          ''Li'', ''-doc'', ''n'', ''-filename'', ''a.ml'', ''-verbosity'', ''0'',
          ''-package'', ''core''], Some return_text, Some [])]"
    by (simp add: s1 s5) (simp add: cmdline_def cmd_def)
  then show ?thesis
    using complete_cursor_arguments [OF a b, of init] by simp
qed

subsection \<open>Writing the settings of the view\<close>

text \<open>
  Claim C4. \<^verbatim>\<open>set_packages\<close> stores the packages under \<^verbatim>\<open>ocamlmerlin_packages\<close>, changes no
  other key and returns nothing. \<^verbatim>\<open>add_build_path\<close> and \<^verbatim>\<open>add_source_path\<close> do not: on every
  view and path they raise \<^verbatim>\<open>AttributeError\<close>, at \<^verbatim>\<open>self.view.settings.set\<close>, and leave the
  settings of the view as they were, so the path is not added.
\<close>

theorem add_path_raises:
  "add_build_path path v = (Inl (AttributeError ''method object has no attribute set''), v)
   \<and> list_build_path (snd (add_build_path path v)) = list_build_path v
   \<and> add_source_path path v = (Inl (AttributeError ''method object has no attribute set''), v)
   \<and> list_source_path (snd (add_source_path path v)) = list_source_path v
   \<and> set_packages packages v =
       (Inr (), v\<lparr>view_settings := (view_settings v)\<lparr>ocamlmerlin_packages := Some packages\<rparr>\<rparr>)"
  by (simp add: add_build_path_def add_source_path_def set_packages_def)

end
